theory Spec2Isabelle
  imports Complex_Main
begin

section \<open>Strings and integer-valued numbers of the source language\<close>

text \<open>
  The source is JavaScript (\<^verbatim>\<open>src/extension.js\<close>).  A string is a sequence of
  code units; it is modelled as \<^typ>\<open>string\<close>, one \<^typ>\<open>char\<close> per code unit (code units
  above 255 are not represented; the functions below only tell ASCII digits and white
  space from everything else).

  The numbers that occur in the check-digit computation are the results of
  \<^verbatim>\<open>Number(base12[i])\<close> and sums of them: each is either \<^verbatim>\<open>NaN\<close> or a
  non-negative integer far below \<open>2^53\<close>, where JavaScript arithmetic is exact.  They
  are modelled as \<^typ>\<open>nat option\<close>, \<^term>\<open>None\<close> standing for \<^verbatim>\<open>NaN\<close>.
\<close>

type_synonym intnum = "nat option"

text \<open>The character class \<^verbatim>\<open>\d\<close> of a JavaScript regular expression: \<^verbatim>\<open>[0-9]\<close>.\<close>

definition isDigit :: "char \<Rightarrow> bool" where
  "isDigit c \<longleftrightarrow> 48 \<le> (of_char c :: nat) \<and> (of_char c :: nat) \<le> 57"

text \<open>
  \<^verbatim>\<open>/^\d{n}$/.test(s)\<close>: without the multiline flag the anchors are the two ends of
  the string, so the test holds exactly when \<open>s\<close> has \<open>n\<close> code units, all of them digits.
\<close>

definition test_digits :: "nat \<Rightarrow> string \<Rightarrow> bool" where
  "test_digits n s \<longleftrightarrow> length s = n \<and> list_all isDigit s"

text \<open>
  The white space that \<^verbatim>\<open>Number\<close> strips from a string (below code unit 256): TAB, LF,
  VT, FF, CR, SP and NBSP.  A string of white space alone converts to \<open>0\<close>.
\<close>

definition isStrWhiteSpaceChar :: "char \<Rightarrow> bool" where
  "isStrWhiteSpaceChar c \<longleftrightarrow> (of_char c :: nat) \<in> {9, 10, 11, 12, 13, 32, 160}"

text \<open>\<^verbatim>\<open>Number(c)\<close> for a string \<open>c\<close> of one code unit.\<close>

definition Number_char :: "char \<Rightarrow> intnum" where
  "Number_char c =
     (if isDigit c then Some (of_char c - 48)
      else if isStrWhiteSpaceChar c then Some 0
      else None)"

text \<open>
  \<^verbatim>\<open>Number(s[i])\<close>: indexing past the end gives \<^verbatim>\<open>undefined\<close>, and
  \<^verbatim>\<open>Number(undefined)\<close> is \<^verbatim>\<open>NaN\<close>.
\<close>

definition Number_at :: "string \<Rightarrow> nat \<Rightarrow> intnum" where
  "Number_at s i = (if i < length s then Number_char (s ! i) else None)"

definition plus_num :: "intnum \<Rightarrow> intnum \<Rightarrow> intnum" where
  "plus_num a b = (case a of None \<Rightarrow> None | Some x \<Rightarrow> (case b of None \<Rightarrow> None | Some y \<Rightarrow> Some (x + y)))"

definition times_num :: "intnum \<Rightarrow> intnum \<Rightarrow> intnum" where
  "times_num a b = (case a of None \<Rightarrow> None | Some x \<Rightarrow> (case b of None \<Rightarrow> None | Some y \<Rightarrow> Some (x * y)))"

text \<open>\<^verbatim>\<open>a === b\<close> on numbers: \<^verbatim>\<open>NaN\<close> is equal to nothing, itself included.\<close>

definition strict_eq :: "intnum \<Rightarrow> intnum \<Rightarrow> bool" where
  "strict_eq a b = (case a of None \<Rightarrow> False | Some x \<Rightarrow> (case b of None \<Rightarrow> False | Some y \<Rightarrow> x = y))"

text \<open>The decimal digits of a non-negative integer, as \<^verbatim>\<open>String(n)\<close> writes them.\<close>

fun decimal :: "nat \<Rightarrow> string" where
  "decimal n =
     (if n < 10 then [char_of (48 + n)]
      else decimal (n div 10) @ [char_of (48 + n mod 10)])"

declare decimal.simps [simp del]

text \<open>The conversion of a number inside a template literal \<^verbatim>\<open>`${n}`\<close>.\<close>

definition toString :: "intnum \<Rightarrow> string" where
  "toString n = (case n of None \<Rightarrow> ''NaN'' | Some k \<Rightarrow> decimal k)"

section \<open>The EAN13 check digit\<close>

text \<open>
  \<^verbatim>\<open>computeEan13CheckDigit(base12)\<close>, lines 88 to 96.  The \<^verbatim>\<open>for\<close> loop is the
  recursion \<open>checkDigitLoop base12 i acc\<close> on the loop index \<open>i\<close> and the running
  \<^verbatim>\<open>sum\<close>; it runs over the whole argument, whatever its length.
\<close>

function checkDigitLoop :: "string \<Rightarrow> nat \<Rightarrow> intnum \<Rightarrow> intnum" where
  "checkDigitLoop base12 i acc =
     (if i < length base12
      then checkDigitLoop base12 (i + 1)
             (plus_num acc
                (if i mod 2 = 0 then Number_char (base12 ! i)
                 else times_num (Number_char (base12 ! i)) (Some 3)))
      else acc)"
  by pat_completeness auto
termination
  by (relation "measure (\<lambda>(base12, i, acc). length base12 - i)") auto

declare checkDigitLoop.simps [simp del]

definition computeEan13CheckDigit :: "string \<Rightarrow> intnum" where
  "computeEan13CheckDigit base12 =
     (case checkDigitLoop base12 0 (Some 0) of
        None \<Rightarrow> None
      | Some s \<Rightarrow> (if s mod 10 = 0 then Some 0 else Some (10 - s mod 10)))"

text \<open>
  \<^verbatim>\<open>isValidEan13(full13)\<close>, lines 101 to 104: \<^verbatim>\<open>full13.slice(0, 12)\<close> is
  \<^term>\<open>take 12 full13\<close>.
\<close>

definition isValidEan13 :: "string \<Rightarrow> bool" where
  "isValidEan13 full13 =
     (let expected = computeEan13CheckDigit (take 12 full13)
      in strict_eq (Number_at full13 12) expected)"

section \<open>The choice of the barcode type\<close>

datatype barcode_type = ean13 | code128 | qrcode

text \<open>
  The object that \<^verbatim>\<open>resolveBarcodeType\<close> returns: its fields \<^verbatim>\<open>type\<close>, \<^verbatim>\<open>value\<close>
  and \<^verbatim>\<open>label\<close>.  No line of the source assigns to a field of it afterwards.
\<close>

record decision =
  dtype :: barcode_type
  dvalue :: string
  dlabel :: string

text \<open>
  The two items that \<^verbatim>\<open>showQuickPick\<close> offers, \<^verbatim>\<open>{ label: 'Code 128', type: 'code128' }\<close>
  and \<^verbatim>\<open>{ label: 'QR Code', type: 'qrcode' }\<close>.  The call resolves to one of them, or to
  \<^verbatim>\<open>undefined\<close> when the user dismisses the list.
\<close>

datatype quick_pick_item = Code_128 | QR_Code

fun item_label :: "quick_pick_item \<Rightarrow> string" where
  "item_label Code_128 = ''Code 128''"
| "item_label QR_Code = ''QR Code''"

fun item_type :: "quick_pick_item \<Rightarrow> barcode_type" where
  "item_type Code_128 = code128"
| "item_type QR_Code = qrcode"

text \<open>The calls to the editor's window that the function makes, in order.\<close>

datatype ui_call =
  showInformationMessage string
| showErrorMessage string
| showQuickPick "quick_pick_item list"

text \<open>
  \<^verbatim>\<open>resolveBarcodeType(value)\<close>, lines 39 to 83.  The answer of the user to the quick
  pick is the parameter \<open>picked\<close> (\<^term>\<open>None\<close> for \<^verbatim>\<open>undefined\<close>); it is read in the
  third branch only.  The result is the list of window calls made and the value returned
  (\<^term>\<open>None\<close> for \<^verbatim>\<open>null\<close>).
\<close>

definition resolveBarcodeType :: "quick_pick_item option \<Rightarrow> string \<Rightarrow> ui_call list \<times> decision option" where
  "resolveBarcodeType picked v =
     (if test_digits 12 v then
        (let completed = v @ toString (computeEan13CheckDigit v)
         in ([showInformationMessage (''EAN13 generated with check digit: '' @ completed)],
             Some \<lparr>dtype = ean13, dvalue = completed, dlabel = ''EAN13''\<rparr>))
      else if test_digits 13 v then
        (if \<not> isValidEan13 v
         then ([showErrorMessage
                  ''Invalid EAN13: check digit parity is incorrect. Generation is not possible.''],
               None)
         else ([], Some \<lparr>dtype = ean13, dvalue = v, dlabel = ''EAN13''\<rparr>))
      else
        ([showQuickPick [Code_128, QR_Code]],
         (case picked of
            None \<Rightarrow> None
          | Some p \<Rightarrow> Some \<lparr>dtype = item_type p, dvalue = v, dlabel = item_label p\<rparr>)))"

text \<open>
  What a caller observes of a result: an EAN13 decision was returned; the input was
  rejected (nothing returned, after an error message); the user was asked to choose.
\<close>

definition is_ean13_decision :: "ui_call list \<times> decision option \<Rightarrow> bool" where
  "is_ean13_decision r \<longleftrightarrow> (case snd r of None \<Rightarrow> False | Some dec \<Rightarrow> dtype dec = ean13)"

definition is_rejected :: "ui_call list \<times> decision option \<Rightarrow> bool" where
  "is_rejected r \<longleftrightarrow>
     snd r = None \<and> list_ex (\<lambda>c. case c of showErrorMessage m \<Rightarrow> True | _ \<Rightarrow> False) (fst r)"

definition is_ambiguous :: "ui_call list \<times> decision option \<Rightarrow> bool" where
  "is_ambiguous r \<longleftrightarrow> list_ex (\<lambda>c. case c of showQuickPick items \<Rightarrow> True | _ \<Rightarrow> False) (fst r)"

subsection \<open>The check digit as the specification words it\<close>

text \<open>
  The weighted sum over the twelve leading digits, \<open>digit[i] * (i even ? 1 : 3)\<close> for
  \<open>i\<close> in \<open>[0, 12)\<close>, and the digit \<open>(sum % 10 == 0) ? 0 : (10 - sum % 10)\<close>.  These two
  definitions follow the specification; the theorems compare them with
  \<^const>\<open>computeEan13CheckDigit\<close>.
\<close>

definition digit :: "char \<Rightarrow> nat" where
  "digit c = of_char c - 48"

definition spec_sum :: "string \<Rightarrow> nat" where
  "spec_sum d = (\<Sum>i = 0..<12. digit (d ! i) * (if even i then 1 else 3))"

definition spec_checkDigit :: "string \<Rightarrow> nat" where
  "spec_checkDigit d = (if spec_sum d mod 10 = 0 then 0 else 10 - spec_sum d mod 10)"

section \<open>The layout of the image on the PDF page\<close>

text \<open>
  The numbers of the layout computation (lines 183 to 193 of
  \<^verbatim>\<open>exportPdfFromPngDataUrl\<close>) are JavaScript numbers.  A finite number is modelled
  as a real and arithmetic on finite numbers is exact: the rounding of binary
  floating point is not modelled.  The three values that are not finite are
  constructors of their own, and the operations produce them where JavaScript does:
  no operation raises an exception, and a division by zero gives an infinity or
  \<^verbatim>\<open>NaN\<close>.  A zero is the positive zero.
\<close>

datatype number = Num real | Infinity | NegInfinity | NaN

fun number_minus :: "number \<Rightarrow> number \<Rightarrow> number" where
  "number_minus NaN b = NaN"
| "number_minus a NaN = NaN"
| "number_minus (Num a) (Num b) = Num (a - b)"
| "number_minus (Num a) Infinity = NegInfinity"
| "number_minus (Num a) NegInfinity = Infinity"
| "number_minus Infinity Infinity = NaN"
| "number_minus Infinity b = Infinity"
| "number_minus NegInfinity NegInfinity = NaN"
| "number_minus NegInfinity b = NegInfinity"

fun number_times :: "number \<Rightarrow> number \<Rightarrow> number" where
  "number_times NaN b = NaN"
| "number_times a NaN = NaN"
| "number_times (Num a) (Num b) = Num (a * b)"
| "number_times (Num a) Infinity = (if a = 0 then NaN else if 0 < a then Infinity else NegInfinity)"
| "number_times (Num a) NegInfinity = (if a = 0 then NaN else if 0 < a then NegInfinity else Infinity)"
| "number_times Infinity (Num b) = (if b = 0 then NaN else if 0 < b then Infinity else NegInfinity)"
| "number_times NegInfinity (Num b) = (if b = 0 then NaN else if 0 < b then NegInfinity else Infinity)"
| "number_times Infinity Infinity = Infinity"
| "number_times Infinity NegInfinity = NegInfinity"
| "number_times NegInfinity Infinity = NegInfinity"
| "number_times NegInfinity NegInfinity = Infinity"

fun number_divide :: "number \<Rightarrow> number \<Rightarrow> number" where
  "number_divide NaN b = NaN"
| "number_divide a NaN = NaN"
| "number_divide (Num a) (Num b) =
     (if b = 0 then (if a = 0 then NaN else if 0 < a then Infinity else NegInfinity)
      else Num (a / b))"
| "number_divide (Num a) b = Num 0"
| "number_divide Infinity (Num b) = (if 0 \<le> b then Infinity else NegInfinity)"
| "number_divide NegInfinity (Num b) = (if 0 \<le> b then NegInfinity else Infinity)"
| "number_divide a b = NaN"

text \<open>
  \<^verbatim>\<open>Math.min\<close>: \<^verbatim>\<open>NaN\<close> when an argument is \<^verbatim>\<open>NaN\<close>, otherwise the least
  argument; \<^verbatim>\<open>Infinity\<close> when there is no argument.
\<close>

fun min2 :: "number \<Rightarrow> number \<Rightarrow> number" where
  "min2 NaN b = NaN"
| "min2 a NaN = NaN"
| "min2 NegInfinity b = NegInfinity"
| "min2 a NegInfinity = NegInfinity"
| "min2 Infinity b = b"
| "min2 a Infinity = a"
| "min2 (Num a) (Num b) = Num (min a b)"

definition Math_min :: "number list \<Rightarrow> number" where
  "Math_min xs = foldr min2 xs Infinity"

text \<open>The constants of lines 183 to 188: the A4 page in points, and the margin.\<close>

definition a4Width :: real where
  "a4Width = 595.28"

definition a4Height :: real where
  "a4Height = 841.89"

definition margin :: real where
  "margin = 36"

definition maxWidth :: number where
  "maxWidth = number_minus (Num a4Width) (number_times (Num margin) (Num 2))"

definition maxHeight :: number where
  "maxHeight = number_minus (Num a4Height) (number_times (Num margin) (Num 2))"

text \<open>
  \<open>scale\<close>, line 189.  The arguments are \<^verbatim>\<open>pngImage.width\<close> and
  \<^verbatim>\<open>pngImage.height\<close>, the pixel dimensions of the embedded image: finite numbers.
\<close>

definition scale :: "real \<Rightarrow> real \<Rightarrow> number" where
  "scale width height =
     Math_min [number_divide maxWidth (Num width), number_divide maxHeight (Num height), Num 1]"

text \<open>The options \<^verbatim>\<open>{ x, y, width: drawWidth, height: drawHeight }\<close> given to \<^verbatim>\<open>page.drawImage\<close>.\<close>

record draw_options =
  opt_x :: number
  opt_y :: number
  opt_width :: number
  opt_height :: number

definition drawImageOptions :: "real \<Rightarrow> real \<Rightarrow> draw_options" where
  "drawImageOptions width height =
     (let drawWidth = number_times (Num width) (scale width height);
          drawHeight = number_times (Num height) (scale width height);
          x = number_divide (number_minus (Num a4Width) drawWidth) (Num 2);
          y = number_divide (number_minus (Num a4Height) drawHeight) (Num 2)
      in \<lparr>opt_x = x, opt_y = y, opt_width = drawWidth, opt_height = drawHeight\<rparr>)"

subsection \<open>The page fitting as the specification words it\<close>



section \<open>Properties of the check digit and of the choice of the type\<close>

lemma Number_char_digit: "isDigit c \<Longrightarrow> Number_char c = Some (digit c)"
  by (simp add: Number_char_def digit_def)

text \<open>On a string of digits the loop adds the weighted digits from the index on.\<close>

lemma checkDigitLoop_digits:
  "list_all isDigit s \<Longrightarrow>
   checkDigitLoop s i (Some a) =
     Some (a + (\<Sum>k = i..<length s. digit (s ! k) * (if even k then 1 else 3)))"
proof (induction "length s - i" arbitrary: i a)
  case 0
  then show ?case by (simp add: checkDigitLoop.simps)
next
  case (Suc n)
  then have lt: "i < length s" by simp
  with Suc.prems have dg: "isDigit (s ! i)" by (simp add: list_all_length)
  have n: "n = length s - (i + 1)" using Suc.hyps(2) by simp
  have step: "checkDigitLoop s i (Some a) =
      checkDigitLoop s (i + 1) (Some (a + digit (s ! i) * (if even i then 1 else 3)))"
    using lt dg
    by (subst checkDigitLoop.simps)
      (simp add: Number_char_digit plus_num_def times_num_def even_iff_mod_2_eq_zero)
  show ?case
    unfolding step Suc.hyps(1) [OF n Suc.prems]
    using lt by (simp add: sum.atLeast_Suc_lessThan)
qed

lemma compute_digits:
  "test_digits 12 d \<Longrightarrow> computeEan13CheckDigit d = Some (spec_checkDigit d)"
  by (simp add: computeEan13CheckDigit_def checkDigitLoop_digits test_digits_def
      spec_checkDigit_def spec_sum_def)

lemma spec_checkDigit_less: "spec_checkDigit d < 10"
  by (simp add: spec_checkDigit_def)

lemma decimal_digit: "n < 10 \<Longrightarrow> decimal n = [char_of (48 + n)]"
  by (simp add: decimal.simps)

lemma isDigit_char_of: "(n::nat) < 10 \<Longrightarrow> isDigit (char_of (48 + n))"
  by (simp add: isDigit_def)

lemma digit_char_of: "n < 10 \<Longrightarrow> digit (char_of (48 + n)) = n"
  by (simp add: digit_def)

lemma test_digits_append:
  "test_digits 12 d \<Longrightarrow> (n::nat) < 10 \<Longrightarrow> test_digits 13 (d @ [char_of (48 + n)])"
  by (simp add: test_digits_def isDigit_char_of)

lemma test_digits_take: "test_digits 13 v \<Longrightarrow> test_digits 12 (take 12 v)"
  by (auto simp add: test_digits_def list_all_iff dest: in_set_takeD)

lemma test_digits_last: "test_digits 13 v \<Longrightarrow> Number_at v 12 = Some (digit (v ! 12))"
  by (simp add: test_digits_def Number_at_def Number_char_digit list_all_length)

lemma isValidEan13_digits:
  "test_digits 13 v \<Longrightarrow> isValidEan13 v \<longleftrightarrow> digit (v ! 12) = spec_checkDigit (take 12 v)"
  by (simp add: isValidEan13_def test_digits_last compute_digits test_digits_take strict_eq_def)

lemma test_digits_13_not_12: "test_digits 13 v \<Longrightarrow> \<not> test_digits 12 v"
  by (simp add: test_digits_def)

lemma item_type_not_ean13: "item_type p \<noteq> ean13"
  by (cases p) simp_all

lemma resolve_twelve:
  "test_digits 12 d \<Longrightarrow>
     resolveBarcodeType picked d =
       ([showInformationMessage
           (''EAN13 generated with check digit: '' @ d @ [char_of (48 + spec_checkDigit d)])],
        Some \<lparr>dtype = ean13, dvalue = d @ [char_of (48 + spec_checkDigit d)], dlabel = ''EAN13''\<rparr>)"
  by (simp add: resolveBarcodeType_def compute_digits toString_def decimal_digit
      spec_checkDigit_less Let_def)

lemma resolve_thirteen:
  "test_digits 13 v \<Longrightarrow>
     resolveBarcodeType picked v =
       (if digit (v ! 12) = spec_checkDigit (take 12 v)
        then ([], Some \<lparr>dtype = ean13, dvalue = v, dlabel = ''EAN13''\<rparr>)
        else ([showErrorMessage
                 ''Invalid EAN13: check digit parity is incorrect. Generation is not possible.''],
              None))"
  by (simp add: resolveBarcodeType_def test_digits_13_not_12 isValidEan13_digits)

lemma completed_valid:
  assumes "test_digits 12 d"
  shows "test_digits 13 (d @ [char_of (48 + spec_checkDigit d)])"
    and "digit ((d @ [char_of (48 + spec_checkDigit d)]) ! 12) =
           spec_checkDigit (take 12 (d @ [char_of (48 + spec_checkDigit d)]))"
proof -
  have c: "spec_checkDigit d < 10" by (rule spec_checkDigit_less)
  have len: "length d = 12" using assms by (simp add: test_digits_def)
  show "test_digits 13 (d @ [char_of (48 + spec_checkDigit d)])"
    using assms c by (rule test_digits_append)
  show "digit ((d @ [char_of (48 + spec_checkDigit d)]) ! 12) =
          spec_checkDigit (take 12 (d @ [char_of (48 + spec_checkDigit d)]))"
    using len c by (simp add: nth_append digit_char_of)
qed

text \<open>
  Claim C1.  On a string of exactly twelve digits the check digit that the code computes
  is the digit of the weighted sum, \<open>(sum % 10 == 0) ? 0 : (10 - sum % 10)\<close> with
  \<open>sum\<close> the sum of \<open>digit[i] * (i even ? 1 : 3)\<close> over \<open>i\<close> in \<open>[0, 12)\<close>, and the
  function returns the EAN13 decision whose value is the input followed by that digit;
  it shows one information message and never rejects or asks.
\<close>

theorem C1_twelve_digits:
  "test_digits 12 d \<Longrightarrow>
     computeEan13CheckDigit d = Some (spec_checkDigit d) \<and>
     spec_checkDigit d < 10 \<and>
     resolveBarcodeType picked d =
       ([showInformationMessage
           (''EAN13 generated with check digit: '' @ d @ [char_of (48 + spec_checkDigit d)])],
        Some \<lparr>dtype = ean13, dvalue = d @ [char_of (48 + spec_checkDigit d)], dlabel = ''EAN13''\<rparr>)"
  by (simp add: compute_digits spec_checkDigit_less resolve_twelve)

text \<open>The example of the specification: the sum is 110, the digit 0.\<close>

theorem C1_twelve_digits_witness:
  "test_digits 12 ''012345678905'' \<and>
   spec_sum ''012345678905'' = 110 \<and>
   computeEan13CheckDigit ''012345678905'' = Some 0 \<and>
   resolveBarcodeType None ''012345678905'' =
     ([showInformationMessage ''EAN13 generated with check digit: 0123456789050''],
      Some \<lparr>dtype = ean13, dvalue = ''0123456789050'', dlabel = ''EAN13''\<rparr>)"
proof -
  have d: "test_digits 12 ''012345678905''"
    by (simp add: test_digits_def isDigit_def)
  have s: "spec_sum ''012345678905'' = 110"
    by (simp add: spec_sum_def digit_def sum.atLeast_Suc_lessThan)
  then have c: "spec_checkDigit ''012345678905'' = 0"
    by (simp add: spec_checkDigit_def)
  have z: "char_of (48 :: nat) = CHR ''0''"
    by code_simp
  show ?thesis
    using d s C1_twelve_digits [OF d, of None] by (simp add: c z)
qed

text \<open>
  Claim C2.  On a string of exactly thirteen digits the code recomputes the check digit
  of the first twelve.  When the thirteenth digit differs from it, the function shows
  the error message and returns nothing, without asking for another type; otherwise it
  returns the EAN13 decision with the input unchanged.
\<close>

theorem C2_thirteen_digits:
  "test_digits 13 v \<Longrightarrow>
     computeEan13CheckDigit (take 12 v) = Some (spec_checkDigit (take 12 v)) \<and>
     resolveBarcodeType picked v =
       (if digit (v ! 12) = spec_checkDigit (take 12 v)
        then ([], Some \<lparr>dtype = ean13, dvalue = v, dlabel = ''EAN13''\<rparr>)
        else ([showErrorMessage
                 ''Invalid EAN13: check digit parity is incorrect. Generation is not possible.''],
              None))"
  by (simp add: compute_digits test_digits_take resolve_thirteen)

text \<open>A valid EAN13 and the same digits with a wrong last digit.\<close>

theorem C2_thirteen_digits_witness:
  "test_digits 13 ''4006381333931'' \<and>
   resolveBarcodeType (Some QR_Code) ''4006381333931'' =
     ([], Some \<lparr>dtype = ean13, dvalue = ''4006381333931'', dlabel = ''EAN13''\<rparr>) \<and>
   test_digits 13 ''4006381333932'' \<and>
   resolveBarcodeType (Some QR_Code) ''4006381333932'' =
     ([showErrorMessage
         ''Invalid EAN13: check digit parity is incorrect. Generation is not possible.''],
      None)"
proof -
  have d1: "test_digits 13 ''4006381333931''" and d2: "test_digits 13 ''4006381333932''"
    by (simp_all add: test_digits_def isDigit_def)
  have c: "spec_checkDigit ''400638133393'' = 1"
    by (simp add: spec_checkDigit_def spec_sum_def digit_def sum.atLeast_Suc_lessThan)
  show ?thesis
    using d1 d2 C2_thirteen_digits [OF d1, of "Some QR_Code"]
      C2_thirteen_digits [OF d2, of "Some QR_Code"]
    by (simp add: c digit_def)
qed

text \<open>
  Claim C3.  On every other string (one that is not exactly twelve and not exactly
  thirteen digits) the function asks the user to choose between Code 128 and QR Code
  and, when an item is chosen, returns a decision of the chosen type that carries the
  input unchanged: it shows no error message and returns no EAN13 decision.  Moreover
  every input has exactly one of the three outcomes: an EAN13 decision, a rejection, a
  question to the user.
\<close>

theorem C3_otherwise:
  "(\<not> test_digits 12 v \<and> \<not> test_digits 13 v \<longrightarrow>
      resolveBarcodeType picked v =
        ([showQuickPick [Code_128, QR_Code]],
         map_option (\<lambda>p. \<lparr>dtype = item_type p, dvalue = v, dlabel = item_label p\<rparr>) picked) \<and>
      is_ambiguous (resolveBarcodeType picked v) \<and>
      \<not> is_rejected (resolveBarcodeType picked v) \<and>
      \<not> is_ean13_decision (resolveBarcodeType picked v)) \<and>
   (let r = resolveBarcodeType picked v in
      (is_ean13_decision r \<and> \<not> is_rejected r \<and> \<not> is_ambiguous r) \<or>
      (\<not> is_ean13_decision r \<and> is_rejected r \<and> \<not> is_ambiguous r) \<or>
      (\<not> is_ean13_decision r \<and> \<not> is_rejected r \<and> is_ambiguous r))"
  by (cases picked)
    (simp_all add: resolveBarcodeType_def is_ambiguous_def is_rejected_def is_ean13_decision_def
      item_type_not_ean13 Let_def)

text \<open>Eleven digits, fourteen digits, and twelve characters one of which is a letter.\<close>

theorem C3_otherwise_witness:
  "\<not> test_digits 12 ''40063813339'' \<and> \<not> test_digits 13 ''40063813339'' \<and>
   resolveBarcodeType (Some Code_128) ''40063813339'' =
     ([showQuickPick [Code_128, QR_Code]],
      Some \<lparr>dtype = code128, dvalue = ''40063813339'', dlabel = ''Code 128''\<rparr>) \<and>
   \<not> test_digits 12 ''40063813339310'' \<and> \<not> test_digits 13 ''40063813339310'' \<and>
   resolveBarcodeType (Some QR_Code) ''40063813339310'' =
     ([showQuickPick [Code_128, QR_Code]],
      Some \<lparr>dtype = qrcode, dvalue = ''40063813339310'', dlabel = ''QR Code''\<rparr>) \<and>
   \<not> test_digits 12 ''40063813339A'' \<and> \<not> test_digits 13 ''40063813339A'' \<and>
   resolveBarcodeType None ''40063813339A'' = ([showQuickPick [Code_128, QR_Code]], None)"
proof -
  have a: "\<not> test_digits 12 ''40063813339'' \<and> \<not> test_digits 13 ''40063813339''"
    and b: "\<not> test_digits 12 ''40063813339310'' \<and> \<not> test_digits 13 ''40063813339310''"
    and c: "\<not> test_digits 12 ''40063813339A'' \<and> \<not> test_digits 13 ''40063813339A''"
    by (simp_all add: test_digits_def isDigit_def)
  show ?thesis
    using a b c
      C3_otherwise [of "''40063813339''" "Some Code_128"]
      C3_otherwise [of "''40063813339310''" "Some QR_Code"]
      C3_otherwise [of "''40063813339A''" None]
    by simp
qed

text \<open>
  Claim C4.  For twelve digits the function returns an EAN13 decision whose value is a
  string of thirteen digits, and on that value it returns the same decision again: the
  digit it appended passes the validation of the thirteen-digit branch.
\<close>

theorem C4_round_trip:
  "test_digits 12 d \<Longrightarrow>
     (\<exists>dec. snd (resolveBarcodeType picked d) = Some dec \<and>
        dtype dec = ean13 \<and>
        test_digits 13 (dvalue dec) \<and>
        isValidEan13 (dvalue dec) \<and>
        resolveBarcodeType picked' (dvalue dec) = ([], Some dec))"
proof -
  assume d: "test_digits 12 d"
  let ?v = "d @ [char_of (48 + spec_checkDigit d)]"
  note v = completed_valid [OF d]
  from v resolve_thirteen [OF v(1), of picked']
  have "resolveBarcodeType picked' ?v = ([], Some \<lparr>dtype = ean13, dvalue = ?v, dlabel = ''EAN13''\<rparr>)"
    by simp
  moreover have "isValidEan13 ?v"
    using v by (simp add: isValidEan13_digits)
  ultimately show ?thesis
    using v(1) resolve_twelve [OF d, of picked] by simp
qed

theorem C4_round_trip_witness:
  "test_digits 12 ''400638133393'' \<and>
   snd (resolveBarcodeType None ''400638133393'') =
     Some \<lparr>dtype = ean13, dvalue = ''4006381333931'', dlabel = ''EAN13''\<rparr> \<and>
   resolveBarcodeType None ''4006381333931'' =
     ([], Some \<lparr>dtype = ean13, dvalue = ''4006381333931'', dlabel = ''EAN13''\<rparr>)"
proof -
  have d: "test_digits 12 ''400638133393''"
    by (simp add: test_digits_def isDigit_def)
  have r: "snd (resolveBarcodeType None ''400638133393'') =
     Some \<lparr>dtype = ean13, dvalue = ''4006381333931'', dlabel = ''EAN13''\<rparr>"
    by code_simp
  show ?thesis
    using d r C4_round_trip [OF d, of None None] by simp
qed

text \<open>
  Claim C5.  Every decision of type EAN13 that the function returns, from whichever
  branch, has a value of exactly thirteen digits whose thirteenth digit is the check
  digit of the first twelve, as the code computes it and as the weighted sum gives it.
  A decision is a value of the model and nothing updates it afterwards.
\<close>

theorem C5_ean13_invariant:
  "snd (resolveBarcodeType picked v) = Some dec \<Longrightarrow> dtype dec = ean13 \<Longrightarrow>
     test_digits 13 (dvalue dec) \<and>
     computeEan13CheckDigit (take 12 (dvalue dec)) = Some (spec_checkDigit (take 12 (dvalue dec))) \<and>
     digit (dvalue dec ! 12) = spec_checkDigit (take 12 (dvalue dec)) \<and>
     isValidEan13 (dvalue dec)"
proof -
  assume r: "snd (resolveBarcodeType picked v) = Some dec" and t: "dtype dec = ean13"
  have goal: "test_digits 13 w \<Longrightarrow> digit (w ! 12) = spec_checkDigit (take 12 w) \<Longrightarrow>
     test_digits 13 w \<and>
     computeEan13CheckDigit (take 12 w) = Some (spec_checkDigit (take 12 w)) \<and>
     digit (w ! 12) = spec_checkDigit (take 12 w) \<and> isValidEan13 w" for w
    by (simp add: isValidEan13_digits compute_digits test_digits_take)
  consider (twelve) "test_digits 12 v"
    | (thirteen) "test_digits 13 v"
    | (other) "\<not> test_digits 12 v" "\<not> test_digits 13 v"
    by blast
  then show ?thesis
  proof cases
    case twelve
    have dec: "dvalue dec = v @ [char_of (48 + spec_checkDigit v)]"
      using r resolve_twelve [OF twelve, of picked] by auto
    show ?thesis
      unfolding dec using completed_valid [OF twelve] by (rule goal)
  next
    case thirteen
    from r resolve_thirteen [OF thirteen, of picked]
    have "dvalue dec = v \<and> digit (v ! 12) = spec_checkDigit (take 12 v)"
      by (auto split: if_splits)
    with thirteen show ?thesis by (simp add: goal)
  next
    case other
    with r t show ?thesis
      by (cases picked) (auto simp add: resolveBarcodeType_def item_type_not_ean13)
  qed
qed

text \<open>The invariant on the decision of each of the two EAN13 branches.\<close>

theorem C5_ean13_invariant_witness:
  "snd (resolveBarcodeType None ''012345678905'') =
     Some \<lparr>dtype = ean13, dvalue = ''0123456789050'', dlabel = ''EAN13''\<rparr> \<and>
   test_digits 13 ''0123456789050'' \<and> isValidEan13 ''0123456789050'' \<and>
   digit (''0123456789050'' ! 12) = spec_checkDigit ''012345678905'' \<and>
   snd (resolveBarcodeType None ''4006381333931'') =
     Some \<lparr>dtype = ean13, dvalue = ''4006381333931'', dlabel = ''EAN13''\<rparr> \<and>
   test_digits 13 ''4006381333931'' \<and> isValidEan13 ''4006381333931'' \<and>
   digit (''4006381333931'' ! 12) = spec_checkDigit ''400638133393''"
proof -
  have r1: "snd (resolveBarcodeType None ''012345678905'') =
     Some \<lparr>dtype = ean13, dvalue = ''0123456789050'', dlabel = ''EAN13''\<rparr>"
    by code_simp
  have r2: "snd (resolveBarcodeType None ''4006381333931'') =
     Some \<lparr>dtype = ean13, dvalue = ''4006381333931'', dlabel = ''EAN13''\<rparr>"
    by code_simp
  show ?thesis
    using r1 r2 C5_ean13_invariant [OF r1] C5_ean13_invariant [OF r2] by simp
qed

text \<open>
  Claim C10.  For twelve digits the check digit that the code computes is an integer
  from 0 to 9, so that the completed value has thirteen characters, and among the ten
  digits that can be appended it is the only one that \<open>isValidEan13\<close> accepts.
\<close>

theorem C10_unique_digit:
  "test_digits 12 d \<Longrightarrow>
     (\<exists>c<10. computeEan13CheckDigit d = Some c \<and>
        length (d @ toString (computeEan13CheckDigit d)) = 13 \<and>
        (\<forall>k<10. isValidEan13 (d @ [char_of (48 + k)]) \<longleftrightarrow> k = c))"
proof -
  assume d: "test_digits 12 d"
  let ?c = "spec_checkDigit d"
  have c: "?c < 10" by (rule spec_checkDigit_less)
  have len: "length d = 12" using d by (simp add: test_digits_def)
  have valid: "isValidEan13 (d @ [char_of (48 + k)]) \<longleftrightarrow> k = ?c" if k: "k < 10" for k :: nat
  proof -
    have "test_digits 13 (d @ [char_of (48 + k)])" using d k by (rule test_digits_append)
    then show ?thesis using len k by (simp add: isValidEan13_digits nth_append digit_char_of)
  qed
  have "length (d @ toString (computeEan13CheckDigit d)) = 13"
    using len c by (simp add: compute_digits [OF d] toString_def decimal_digit)
  with c valid compute_digits [OF d] show ?thesis by blast
qed

text \<open>The ten candidates for the last digit of \<open>012345678905\<close>: only \<open>0\<close> is accepted.\<close>

theorem C10_unique_digit_witness:
  "test_digits 12 ''012345678905'' \<and>
   computeEan13CheckDigit ''012345678905'' = Some 0 \<and>
   filter (\<lambda>k::nat. isValidEan13 (''012345678905'' @ [char_of (48 + k)])) [0..<10] = [0]"
proof -
  have d: "test_digits 12 ''012345678905''"
    by (simp add: test_digits_def isDigit_def)
  have z: "computeEan13CheckDigit ''012345678905'' = Some 0"
    by code_simp
  from C10_unique_digit [OF d] z
  have a: "\<forall>k::nat<10. isValidEan13 (''012345678905'' @ [char_of (48 + k)]) \<longleftrightarrow> k = 0"
    by simp
  have "filter (\<lambda>k::nat. isValidEan13 (''012345678905'' @ [char_of (48 + k)])) [0..<10] =
        filter (\<lambda>k. k = 0) [0..<10]"
    by (rule filter_cong) (use a in simp_all)
  also have "\<dots> = [0]"
    by code_simp
  finally show ?thesis using d z by simp
qed

section \<open>Properties of the layout\<close>

lemma maxWidth_eq: "maxWidth = Num 523.28"
  by (simp add: maxWidth_def a4Width_def margin_def)

lemma maxHeight_eq: "maxHeight = Num 769.89"
  by (simp add: maxHeight_def a4Height_def margin_def)

lemma scale_positive:
  "0 < w \<Longrightarrow> 0 < h \<Longrightarrow> scale w h = Num (min (min (523.28 / w) (769.89 / h)) 1)"
  by (simp add: scale_def Math_min_def maxWidth_eq maxHeight_eq min.assoc)

text \<open>With a zero dimension a quotient is infinite, and the minimum with 1 is finite.\<close>

lemma scale_zero: "w = 0 \<or> h = 0 \<Longrightarrow> \<exists>s. scale w h = Num s"
  by (auto simp add: scale_def Math_min_def maxWidth_eq maxHeight_eq)

lemma layout_of_scale:
  "scale w h = Num s \<Longrightarrow>
     drawImageOptions w h =
       \<lparr>opt_x = Num ((a4Width - w * s) / 2), opt_y = Num ((a4Height - h * s) / 2),
        opt_width = Num (w * s), opt_height = Num (h * s)\<rparr>"
  by (simp add: drawImageOptions_def)


lemma scale_bounds:
  fixes w h :: real
  assumes "0 < w" "0 < h"
  defines "s \<equiv> min (min (523.28 / w) (769.89 / h)) 1"
  shows "0 < s" "s \<le> 1" "w * s \<le> 523.28" "h * s \<le> 769.89"
proof -
  show "0 < s" using assms by (simp add: s_def)
  show "s \<le> 1" by (simp add: s_def)
  have "s \<le> 523.28 / w" by (simp add: s_def)
  then show "w * s \<le> 523.28" using assms(1) by (simp add: field_simps)
  have "s \<le> 769.89 / h" by (simp add: s_def)
  then show "h * s \<le> 769.89" using assms(2) by (simp add: field_simps)
qed



text \<open>
  Claim C6, as the code has it.  The computation has no check of the source
  dimensions and raises nothing.  With a width or a height of zero it still yields a
  layout: its four fields are finite numbers (neither \<^verbatim>\<open>NaN\<close> nor an infinity), and
  the dimension that is zero in the source is drawn with size zero.
\<close>

theorem C6_zero_dimension:
  "w = 0 \<or> h = 0 \<Longrightarrow>
     (\<exists>x y dw dh.
        drawImageOptions w h =
          \<lparr>opt_x = Num x, opt_y = Num y, opt_width = Num dw, opt_height = Num dh\<rparr> \<and>
        (w = 0 \<longrightarrow> dw = 0) \<and> (h = 0 \<longrightarrow> dh = 0))"
proof -
  assume z: "w = 0 \<or> h = 0"
  then obtain s where "scale w h = Num s" using scale_zero by blast
  then have "drawImageOptions w h =
       \<lparr>opt_x = Num ((a4Width - w * s) / 2), opt_y = Num ((a4Height - h * s) / 2),
        opt_width = Num (w * s), opt_height = Num (h * s)\<rparr>"
    by (rule layout_of_scale)
  moreover have "w = 0 \<longrightarrow> w * s = 0" "h = 0 \<longrightarrow> h * s = 0" by simp_all
  ultimately show ?thesis by blast
qed

theorem C6_zero_dimension_witness:
  "(0::real) = 0 \<and>
   (\<exists>x y dh. drawImageOptions 0 180 =
      \<lparr>opt_x = Num x, opt_y = Num y, opt_width = Num 0, opt_height = Num dh\<rparr>) \<and>
   (\<exists>x y dw. drawImageOptions 640 0 =
      \<lparr>opt_x = Num x, opt_y = Num y, opt_width = Num dw, opt_height = Num 0\<rparr>)"
  using C6_zero_dimension [of 0 180] C6_zero_dimension [of 640 0] by simp

text \<open>
  The claim as the specification states it fails: for an image of width 0 and height
  180 the code computes a layout of width zero, centred on the page, and signals nothing.
\<close>

theorem C6_counterexample:
  "drawImageOptions 0 180 =
     \<lparr>opt_x = Num 297.64, opt_y = Num 330.945, opt_width = Num 0, opt_height = Num 180\<rparr>"
  by (simp add: drawImageOptions_def scale_def Math_min_def maxWidth_eq maxHeight_eq
      a4Width_def a4Height_def)






text \<open>
  Claim C9.  For positive source dimensions the scale is a finite number, positive
  and at most 1, so that the image is drawn no larger than the source; when the source
  fits within the margins the scale is 1 and the image is drawn at its own size,
  centred on the page.
\<close>

theorem C9_no_upscaling:
  "0 < w \<Longrightarrow> 0 < h \<Longrightarrow>
     (\<exists>s. scale w h = Num s \<and> 0 < s \<and> s \<le> 1 \<and>
        opt_width (drawImageOptions w h) = Num (w * s) \<and>
        opt_height (drawImageOptions w h) = Num (h * s) \<and>
        w * s \<le> w \<and> h * s \<le> h \<and>
        (w \<le> a4Width - 2 * margin \<and> h \<le> a4Height - 2 * margin \<longrightarrow>
           s = 1 \<and>
           drawImageOptions w h =
             \<lparr>opt_x = Num ((a4Width - w) / 2), opt_y = Num ((a4Height - h) / 2),
              opt_width = Num w, opt_height = Num h\<rparr>))"
proof -
  assume w: "0 < w" and h: "0 < h"
  define s where "s = min (min (523.28 / w) (769.89 / h)) 1"
  note b = scale_bounds [OF w h, folded s_def]
  have sc: "scale w h = Num s" using w h by (simp add: scale_positive s_def)
  have le: "w * s \<le> w" "h * s \<le> h" using w h b by (simp_all add: mult_left_le)
  have one: "s = 1" if "w \<le> a4Width - 2 * margin" "h \<le> a4Height - 2 * margin"
  proof -
    have "1 \<le> 523.28 / w" "1 \<le> 769.89 / h"
      using that w h by (simp_all add: a4Width_def a4Height_def margin_def)
    then show ?thesis by (simp add: s_def)
  qed
  show ?thesis
    using sc b le one by (auto simp add: layout_of_scale)
qed

text \<open>The example of the specification: a source of 100 by 50 on the A4 page.\<close>

theorem C9_no_upscaling_witness:
  "(0::real) < 100 \<and> (0::real) < 50 \<and> scale 100 50 = Num 1 \<and>
   drawImageOptions 100 50 =
     \<lparr>opt_x = Num 247.64, opt_y = Num 395.945, opt_width = Num 100, opt_height = Num 50\<rparr>"
proof -
  have w: "(0::real) < 100" and h: "(0::real) < 50" by simp_all
  have small: "(100::real) \<le> a4Width - 2 * margin \<and> (50::real) \<le> a4Height - 2 * margin"
    by (simp add: a4Width_def a4Height_def margin_def)
  have c: "(a4Width - 100) / 2 = 247.64" "(a4Height - 50) / 2 = 395.945"
    by (simp_all add: a4Width_def a4Height_def)
  show ?thesis
    using w h small C9_no_upscaling [OF w h] by (auto simp add: c)
qed

end
